theory Spec2Isabelle
  imports Complex_Main
begin

section \<open>ECMAScript Number values\<close>

text \<open>
  The module computes on ECMAScript Numbers, i.e. IEEE 754 binary64 values. A finite
  Number is represented by the rational it denotes, \<open>NaN\<close> is the time value of an
  Invalid Date. Every arithmetic operator rounds its exact result to the nearest
  binary64 value, ties to even (\<open>fl\<close>). The infinities and the sign of zero are not
  represented: no operation of \<open>TimeConverter\<close> reaches a magnitude of \<open>2^1024\<close> on a
  Date, and \<open>TimeClip\<close> turns \<open>-0\<close> into \<open>+0\<close>.
\<close>

datatype number = NaN | Finite rat

function ilog2 :: "int \<Rightarrow> int" where
  "ilog2 n = (if n < 2 then 0 else 1 + ilog2 (n div 2))"
  by pat_completeness auto
termination
  by (relation "measure nat") auto

declare ilog2.simps [simp del]

text \<open>For \<open>x > 0\<close>, \<open>binade x\<close> is the exponent \<open>e\<close> with \<open>2^e \<le> x < 2^(e+1)\<close>.\<close>

definition binade :: "rat \<Rightarrow> int" where
  "binade x =
     (if 1 \<le> x then ilog2 \<lfloor>x\<rfloor>
      else - (1 + ilog2 (\<lceil>1 / x\<rceil> - 1)))"

definition pow2 :: "int \<Rightarrow> rat" where
  "pow2 e = (if 0 \<le> e then 2 ^ nat e else 1 / 2 ^ nat (- e))"

text \<open>Nearest integer, a tie going to the even neighbour.\<close>

definition round_ties_even :: "rat \<Rightarrow> int" where
  "round_ties_even q =
     (let n = \<lfloor>q\<rfloor>; r = q - of_int n
      in if r < 1 / 2 then n
         else if 1 / 2 < r then n + 1
         else if even n then n else n + 1)"

text \<open>
  Rounding to binary64: 53 significant bits, so the spacing in the binade of exponent
  \<open>e\<close> is \<open>2^(e - 52)\<close>; below the normal range the spacing stays \<open>2^(-1074)\<close>.
\<close>

definition fl :: "rat \<Rightarrow> rat" where
  "fl x =
     (if x = 0 then 0
      else let u = pow2 (max (binade \<bar>x\<bar>) (- 1022) - 52)
           in of_int (round_ties_even (x / u)) * u)"

text \<open>A decimal literal of the source denotes the binary64 value nearest to it.\<close>

definition lit :: "rat \<Rightarrow> number" where
  "lit r = Finite (fl r)"

fun num_add :: "number \<Rightarrow> number \<Rightarrow> number" where
  "num_add (Finite a) (Finite b) = Finite (fl (a + b))"
| "num_add _ _ = NaN"

fun num_sub :: "number \<Rightarrow> number \<Rightarrow> number" where
  "num_sub (Finite a) (Finite b) = Finite (fl (a - b))"
| "num_sub _ _ = NaN"

fun num_mul :: "number \<Rightarrow> number \<Rightarrow> number" where
  "num_mul (Finite a) (Finite b) = Finite (fl (a * b))"
| "num_mul _ _ = NaN"

text \<open>Division: every divisor in the module is a non-zero constant.\<close>

fun num_div :: "number \<Rightarrow> number \<Rightarrow> number" where
  "num_div (Finite a) (Finite b) = (if b = 0 then NaN else Finite (fl (a / b)))"
| "num_div _ _ = NaN"

text \<open>The relational operators are false as soon as an operand is \<open>NaN\<close>.\<close>

fun num_ge :: "number \<Rightarrow> number \<Rightarrow> bool" where
  "num_ge (Finite a) (Finite b) = (b \<le> a)"
| "num_ge _ _ = False"

fun num_lt :: "number \<Rightarrow> number \<Rightarrow> bool" where
  "num_lt (Finite a) (Finite b) = (a < b)"
| "num_lt _ _ = False"


text \<open>
  The remainder \<open>n % d\<close> is \<open>n - d * q\<close> with \<open>q\<close> the quotient truncated towards
  zero; it takes the sign of \<open>n\<close> and is \<open>NaN\<close> for \<open>d = 0\<close>.
\<close>

fun num_rem :: "number \<Rightarrow> number \<Rightarrow> number" where
  "num_rem (Finite n) (Finite d) =
     (if d = 0 then NaN
      else Finite (fl (n - d * of_int (if 0 \<le> n / d then \<lfloor>n / d\<rfloor> else \<lceil>n / d\<rceil>))))"
| "num_rem _ _ = NaN"

section \<open>Property values\<close>

text \<open>
  The tags read by the contract classes (frame, time scale, datum, origin) are strings;
  a property that is missing reads as \<open>undefined\<close> and one that was cleared as
  \<open>null\<close>. On these values \<open>===\<close> and \<open>!==\<close> are equality and inequality of the
  datatype, and only a non-empty string is truthy.
\<close>

datatype jsval = Undefined | Null | Str string

definition truthy :: "jsval \<Rightarrow> bool" where
  "truthy v = (case v of Str s \<Rightarrow> s \<noteq> [] | _ \<Rightarrow> False)"

section \<open>Date objects\<close>

text \<open>
  A Date object holds a time value: milliseconds since 1970-01-01T00:00:00Z, an
  integer of magnitude at most \<open>8.64e15\<close>, or \<open>NaN\<close> (Invalid Date). The constructor
  \<open>new Date(v)\<close> applies \<open>TimeClip\<close>, which truncates towards zero
  (\<open>ToIntegerOrInfinity\<close>) and yields \<open>NaN\<close> outside the range.
\<close>

datatype Date = Date (getTime: number)

definition ToIntegerOrInfinity :: "rat \<Rightarrow> int" where
  "ToIntegerOrInfinity x = (if 0 \<le> x then \<lfloor>x\<rfloor> else \<lceil>x\<rceil>)"

definition TimeClip :: "number \<Rightarrow> number" where
  "TimeClip v =
     (case v of
        NaN \<Rightarrow> NaN
      | Finite x \<Rightarrow>
          if 8640000000000000 < \<bar>x\<bar> then NaN
          else Finite (of_int (ToIntegerOrInfinity x)))"

definition newDate :: "number \<Rightarrow> Date" where
  "newDate v = Date (TimeClip v)"

text \<open>The values a Date object can hold: exactly the fixed points of \<open>TimeClip\<close>.\<close>

definition is_Date :: "Date \<Rightarrow> bool" where
  "is_Date d = (TimeClip (getTime d) = getTime d)"

text \<open>
  \<open>a >= b\<close> and \<open>a - b\<close> on Date objects convert both operands with \<open>valueOf\<close>,
  which is the time value.
\<close>

definition date_ge :: "Date \<Rightarrow> Date \<Rightarrow> bool" where
  "date_ge a b = num_ge (getTime a) (getTime b)"

definition date_minus :: "Date \<Rightarrow> Date \<Rightarrow> number" where
  "date_minus a b = num_sub (getTime a) (getTime b)"

text \<open>
  \<open>new Date('YYYY-MM-DD')\<close>: a date-only ISO string is midnight UTC of that day
  (\<open>DayFromYear\<close>, the month offsets and \<open>msPerDay\<close> of ECMAScript).
\<close>

definition DayFromYear :: "int \<Rightarrow> int" where
  "DayFromYear y =
     365 * (y - 1970) + (y - 1969) div 4 - (y - 1901) div 100 + (y - 1601) div 400"

definition InLeapYear :: "int \<Rightarrow> bool" where
  "InLeapYear y = (y mod 4 = 0 \<and> (y mod 100 \<noteq> 0 \<or> y mod 400 = 0))"

definition month_start :: "int \<Rightarrow> nat \<Rightarrow> int" where
  "month_start y m =
     [0, 31, 59, 90, 120, 151, 181, 212, 243, 273, 304, 334] ! (m - 1)
       + (if InLeapYear y \<and> 2 < m then 1 else 0)"

definition DaysInMonth :: "int \<Rightarrow> nat \<Rightarrow> nat" where
  "DaysInMonth y m =
     (if m = 2 then (if InLeapYear y then 29 else 28)
      else [31, 28, 31, 30, 31, 30, 31, 31, 30, 31, 30, 31] ! (m - 1))"

definition newDateISO :: "int \<Rightarrow> nat \<Rightarrow> nat \<Rightarrow> Date" where
  "newDateISO y m d =
     (if 1 \<le> m \<and> m \<le> 12 \<and> 1 \<le> d \<and> d \<le> DaysInMonth y m
      then newDate (Finite (of_int ((DayFromYear y + month_start y m + int d - 1) * 86400000)))
      else Date NaN)"

section \<open>Constant tables of truth-contracts.js\<close>

definition TIME_SCALES_UTC :: string where "TIME_SCALES_UTC = ''UTC''"
definition TIME_SCALES_TAI :: string where "TIME_SCALES_TAI = ''TAI''"
definition TIME_SCALES_TT :: string where "TIME_SCALES_TT = ''TT''"
definition TIME_SCALES_TDB :: string where "TIME_SCALES_TDB = ''TDB''"
definition TIME_SCALES_UT1 :: string where "TIME_SCALES_UT1 = ''UT1''"
definition TIME_SCALES_GPS :: string where "TIME_SCALES_GPS = ''GPS''"

definition TIME_SCALES :: "(string \<times> string) list" where
  "TIME_SCALES =
     [(''UTC'', TIME_SCALES_UTC), (''TAI'', TIME_SCALES_TAI), (''TT'', TIME_SCALES_TT),
      (''TDB'', TIME_SCALES_TDB), (''UT1'', TIME_SCALES_UT1), (''GPS'', TIME_SCALES_GPS)]"

record LeapEntry =
  date :: Date
  leapSeconds :: number

definition LEAP_SECONDS :: "LeapEntry list" where
  "LEAP_SECONDS =
     [\<lparr>date = newDateISO 1972 1 1, leapSeconds = Finite 10\<rparr>,
      \<lparr>date = newDateISO 1972 7 1, leapSeconds = Finite 11\<rparr>,
      \<lparr>date = newDateISO 1973 1 1, leapSeconds = Finite 12\<rparr>,
      \<lparr>date = newDateISO 1974 1 1, leapSeconds = Finite 13\<rparr>,
      \<lparr>date = newDateISO 1975 1 1, leapSeconds = Finite 14\<rparr>,
      \<lparr>date = newDateISO 1976 1 1, leapSeconds = Finite 15\<rparr>,
      \<lparr>date = newDateISO 1977 1 1, leapSeconds = Finite 16\<rparr>,
      \<lparr>date = newDateISO 1978 1 1, leapSeconds = Finite 17\<rparr>,
      \<lparr>date = newDateISO 1979 1 1, leapSeconds = Finite 18\<rparr>,
      \<lparr>date = newDateISO 1980 1 1, leapSeconds = Finite 19\<rparr>,
      \<lparr>date = newDateISO 1981 7 1, leapSeconds = Finite 20\<rparr>,
      \<lparr>date = newDateISO 1982 7 1, leapSeconds = Finite 21\<rparr>,
      \<lparr>date = newDateISO 1983 7 1, leapSeconds = Finite 22\<rparr>,
      \<lparr>date = newDateISO 1985 7 1, leapSeconds = Finite 23\<rparr>,
      \<lparr>date = newDateISO 1988 1 1, leapSeconds = Finite 24\<rparr>,
      \<lparr>date = newDateISO 1990 1 1, leapSeconds = Finite 25\<rparr>,
      \<lparr>date = newDateISO 1991 1 1, leapSeconds = Finite 26\<rparr>,
      \<lparr>date = newDateISO 1992 7 1, leapSeconds = Finite 27\<rparr>,
      \<lparr>date = newDateISO 1993 7 1, leapSeconds = Finite 28\<rparr>,
      \<lparr>date = newDateISO 1994 7 1, leapSeconds = Finite 29\<rparr>,
      \<lparr>date = newDateISO 1996 1 1, leapSeconds = Finite 30\<rparr>,
      \<lparr>date = newDateISO 1997 7 1, leapSeconds = Finite 31\<rparr>,
      \<lparr>date = newDateISO 1999 1 1, leapSeconds = Finite 32\<rparr>,
      \<lparr>date = newDateISO 2006 1 1, leapSeconds = Finite 33\<rparr>,
      \<lparr>date = newDateISO 2009 1 1, leapSeconds = Finite 34\<rparr>,
      \<lparr>date = newDateISO 2012 7 1, leapSeconds = Finite 35\<rparr>,
      \<lparr>date = newDateISO 2015 7 1, leapSeconds = Finite 36\<rparr>,
      \<lparr>date = newDateISO 2017 1 1, leapSeconds = Finite 37\<rparr>]"

record EOP =
  dut1 :: number
  xp :: number
  yp :: number
  updated :: string

definition EOP_DATA :: EOP where
  "EOP_DATA =
     \<lparr>dut1 = lit (- (1234 / 10000)), xp = lit (123456 / 1000000),
      yp = lit (234567 / 1000000), updated = ''2025-01-01T00:00:00Z''\<rparr>"

section \<open>TimeConverter\<close>

text \<open>
  \<open>getLeapSeconds\<close>: the \<open>for ... of\<close> loop over the table, the running value
  \<open>ls\<close> starting at the pre-1972 default 10 and the \<open>break\<close> at the first entry
  later than the argument.
\<close>

fun leap_loop :: "Date \<Rightarrow> LeapEntry list \<Rightarrow> number \<Rightarrow> number" where
  "leap_loop utcDate [] ls = ls"
| "leap_loop utcDate (entry # rest) ls =
     (if date_ge utcDate (date entry) then leap_loop utcDate rest (leapSeconds entry)
      else ls)"

definition getLeapSeconds :: "Date \<Rightarrow> number" where
  "getLeapSeconds utcDate = leap_loop utcDate LEAP_SECONDS (Finite 10)"

text \<open>
  The lookup as the specification words it: the offset of the last entry of the table
  whose effective date is at most the argument, \<open>None\<close> when the table has no such
  entry. \<open>date_sorted\<close> is the order of the table that the wording relies on.
\<close>

definition entries_upto :: "Date \<Rightarrow> LeapEntry list" where
  "entries_upto d = filter (\<lambda>entry. date_ge d (date entry)) LEAP_SECONDS"

definition table_leap_seconds :: "Date \<Rightarrow> number option" where
  "table_leap_seconds d =
     (case entries_upto d of [] \<Rightarrow> None | _ # _ \<Rightarrow> Some (leapSeconds (last (entries_upto d))))"

definition date_sorted :: "LeapEntry list \<Rightarrow> bool" where
  "date_sorted es = sorted_wrt (\<lambda>a b. date_ge (date b) (date a)) es"

definition utcToTAI :: "Date \<Rightarrow> Date" where
  "utcToTAI utcDate =
     (let ls = getLeapSeconds utcDate
      in newDate (num_add (getTime utcDate) (num_mul ls (Finite 1000))))"

definition utcToTT :: "Date \<Rightarrow> Date" where
  "utcToTT utcDate =
     (let tai = utcToTAI utcDate
      in newDate (num_add (getTime tai) (num_mul (lit (32184 / 1000)) (Finite 1000))))"

definition dateToJulianDate :: "Date \<Rightarrow> number" where
  "dateToJulianDate d =
     num_add (num_div (getTime d) (Finite 86400000)) (lit (24405875 / 10))"

text \<open>
  \<open>Math.sin\<close> and \<open>Math.cos\<close> are implementation-approximated in ECMAScript, so
  their values on a finite argument are parameters \<open>sin64\<close> and \<open>cos64\<close> of the
  model; on \<open>NaN\<close> they are \<open>NaN\<close>.
\<close>

definition Math_sin :: "(rat \<Rightarrow> rat) \<Rightarrow> number \<Rightarrow> number" where
  "Math_sin sin64 x = (case x of NaN \<Rightarrow> NaN | Finite r \<Rightarrow> Finite (sin64 r))"


definition Math_PI :: number where
  "Math_PI = lit (3141592653589793 / 1000000000000000)"

definition utcToTDB :: "(rat \<Rightarrow> rat) \<Rightarrow> Date \<Rightarrow> Date" where
  "utcToTDB sin64 utcDate =
     (let tt = utcToTT utcDate;
          jd = dateToJulianDate tt;
          T = num_div (num_sub jd (lit 2451545)) (lit 36525);
          g = num_div
                (num_mul
                   (num_add (lit (3575277233 / 10000000))
                      (num_mul (lit (3599905034 / 100000)) T))
                   Math_PI)
                (Finite 180);
          deltaT = num_add (num_mul (lit (1658 / 1000000)) (Math_sin sin64 g))
                     (num_mul (lit (14 / 1000000)) (Math_sin sin64 (num_mul (Finite 2) g)))
      in newDate (num_add (getTime tt) (num_mul deltaT (Finite 1000))))"

definition utcToUT1 :: "Date \<Rightarrow> Date" where
  "utcToUT1 utcDate =
     (let d = dut1 EOP_DATA
      in newDate (num_add (getTime utcDate) (num_mul d (Finite 1000))))"

datatype Error =
    InvalidFrame jsval
  | InvalidTimeScale jsval
  | InvalidHeightDatum jsval
  | InvalidOrigin jsval
  | UnsupportedTimeScale string
  | NoContractRegistered string

text \<open>
  \<open>convert\<close>: the early return on equal scales, the conversion to UTC (only the
  scales TAI and TT have a branch; any other source scale leaves the timestamp as it
  is), then the \<open>switch\<close> on the target scale with its throwing \<open>default\<close>.
\<close>

definition convert ::
  "(rat \<Rightarrow> rat) \<Rightarrow> Date \<Rightarrow> string \<Rightarrow> string \<Rightarrow> Error + Date" where
  "convert sin64 timestamp fromScale toScale =
     (if fromScale = toScale then Inr timestamp
      else
        let utc =
          (if fromScale = TIME_SCALES_TAI then
             (let ls = getLeapSeconds timestamp
              in newDate (num_sub (getTime timestamp) (num_mul ls (Finite 1000))))
           else if fromScale = TIME_SCALES_TT then
             (let tai = newDate (num_sub (getTime timestamp)
                                   (num_mul (lit (32184 / 1000)) (Finite 1000)));
                  ls = getLeapSeconds tai
              in newDate (num_sub (getTime tai) (num_mul ls (Finite 1000))))
           else timestamp)
        in if toScale = TIME_SCALES_UTC then Inr utc
           else if toScale = TIME_SCALES_TAI then Inr (utcToTAI utc)
           else if toScale = TIME_SCALES_TT then Inr (utcToTT utc)
           else if toScale = TIME_SCALES_TDB then Inr (utcToTDB sin64 utc)
           else if toScale = TIME_SCALES_UT1 then Inr (utcToUT1 utc)
           else Inl (UnsupportedTimeScale toScale))"

section \<open>TruthContract\<close>

definition FRAMES_ICRF_BARYCENTRIC :: string where
  "FRAMES_ICRF_BARYCENTRIC = ''ICRF_BARYCENTRIC''"
definition FRAMES_HELIOCENTRIC_ECLIPTIC :: string where
  "FRAMES_HELIOCENTRIC_ECLIPTIC = ''HELIOCENTRIC_ECLIPTIC''"
definition FRAMES_ECI :: string where "FRAMES_ECI = ''ECI''"
definition FRAMES_ECEF :: string where "FRAMES_ECEF = ''ECEF''"
definition FRAMES_TOPOCENTRIC :: string where "FRAMES_TOPOCENTRIC = ''TOPOCENTRIC''"
definition FRAMES_MOON_CENTERED :: string where "FRAMES_MOON_CENTERED = ''MOON_CENTERED''"

definition FRAMES :: "(string \<times> string) list" where
  "FRAMES =
     [(''ICRF_BARYCENTRIC'', FRAMES_ICRF_BARYCENTRIC),
      (''HELIOCENTRIC_ECLIPTIC'', FRAMES_HELIOCENTRIC_ECLIPTIC),
      (''ECI'', FRAMES_ECI),
      (''ECEF'', FRAMES_ECEF),
      (''TOPOCENTRIC'', FRAMES_TOPOCENTRIC),
      (''MOON_CENTERED'', FRAMES_MOON_CENTERED)]"

definition HEIGHT_DATUMS :: "(string \<times> string) list" where
  "HEIGHT_DATUMS = [(''ELLIPSOID'', ''ELLIPSOID''), (''GEOID'', ''GEOID''), (''MSL'', ''MSL'')]"

definition Object_values :: "(string \<times> string) list \<Rightarrow> string list" where
  "Object_values obj = map snd obj"

text \<open>
  \<open>includes\<close> compares with \<open>SameValueZero\<close>, so \<open>undefined\<close> and \<open>null\<close> are never
  found in a list of strings.
\<close>

definition includes_js :: "string list \<Rightarrow> jsval \<Rightarrow> bool" where
  "includes_js xs v = (case v of Str s \<Rightarrow> s \<in> set xs | _ \<Rightarrow> False)"

type_synonym Tolerance = "(string \<times> number) list"

text \<open>The argument of the constructors; a property that is not given is \<open>Undefined\<close>.\<close>

record Config =
  frame :: jsval
  timeScale :: jsval
  heightDatum :: jsval
  origin :: jsval
  tolerance :: "Tolerance option"

record TruthContract =
  this_frame :: jsval
  this_timeScale :: jsval
  this_heightDatum :: jsval
  this_tolerance :: Tolerance

text \<open>\<open>v || null\<close>: every falsy value, the empty string included, becomes \<open>null\<close>.\<close>

definition or_null :: "jsval \<Rightarrow> jsval" where
  "or_null v = (if truthy v then v else Null)"

definition TruthContract_new :: "Config \<Rightarrow> Error + TruthContract" where
  "TruthContract_new config =
     (let this = \<lparr>this_frame = frame config,
                  this_timeScale = timeScale config,
                  this_heightDatum = or_null (heightDatum config),
                  this_tolerance = (case tolerance config of None \<Rightarrow> [] | Some t \<Rightarrow> t)\<rparr>
      in if \<not> includes_js (Object_values FRAMES) (this_frame this)
         then Inl (InvalidFrame (this_frame this))
         else if \<not> includes_js (Object_values TIME_SCALES) (this_timeScale this)
         then Inl (InvalidTimeScale (this_timeScale this))
         else if truthy (this_heightDatum this)
                 \<and> \<not> includes_js (Object_values HEIGHT_DATUMS) (this_heightDatum this)
         then Inl (InvalidHeightDatum (this_heightDatum this))
         else Inr this)"

text \<open>A value interpolated into a template string.\<close>

definition template :: "jsval \<Rightarrow> string" where
  "template v = (case v of Undefined \<Rightarrow> ''undefined'' | Null \<Rightarrow> ''null'' | Str s \<Rightarrow> s)"

definition toString :: "TruthContract \<Rightarrow> string" where
  "toString this =
     ''Contract(frame='' @ template (this_frame this) @ '', time=''
       @ template (this_timeScale this) @ '', datum=''
       @ template (this_heightDatum this) @ '')''"

section \<open>CelestialContract\<close>

definition ORIGINS_GEOCENTRIC :: string where "ORIGINS_GEOCENTRIC = ''GEOCENTRIC''"

definition ORIGINS :: "(string \<times> string) list" where
  "ORIGINS =
     [(''BARYCENTRIC'', ''BARYCENTRIC''),
      (''HELIOCENTRIC'', ''HELIOCENTRIC''),
      (''GEOCENTRIC'', ORIGINS_GEOCENTRIC),
      (''TOPOCENTRIC'', ''TOPOCENTRIC''),
      (''SELENOCENTRIC'', ''SELENOCENTRIC'')]"

record CelestialContract = TruthContract +
  this_origin :: jsval


definition CelestialContract_toString :: "CelestialContract \<Rightarrow> string" where
  "CelestialContract_toString this =
     ''Contract(frame='' @ template (this_frame this) @ '', time=''
       @ template (this_timeScale this) @ '', origin=''
       @ template (this_origin this) @ '', datum=''
       @ template (this_heightDatum this) @ '')''"

text \<open>
  A contract object is of one of the two classes; \<open>contract.toString()\<close> runs the
  method of its class.
\<close>

datatype Contract = OfTruthContract TruthContract | OfCelestialContract CelestialContract

definition Contract_toString :: "Contract \<Rightarrow> string" where
  "Contract_toString contract =
     (case contract of
        OfTruthContract c \<Rightarrow> toString c
      | OfCelestialContract c \<Rightarrow> CelestialContract_toString c)"

definition Contract_tolerance :: "Contract \<Rightarrow> Tolerance" where
  "Contract_tolerance contract =
     (case contract of
        OfTruthContract c \<Rightarrow> this_tolerance c
      | OfCelestialContract c \<Rightarrow> this_tolerance c)"

section \<open>FrameTransformer.validateFrameCompatibility and ContractedVerifier\<close>

text \<open>
  The console is modelled by the list of entries a call emits, in order; an entry
  records which message it is and the values interpolated into it.
\<close>

datatype ConsoleEntry =
    Log_Verifying string string
  | Warn_FrameMismatch string jsval jsval
  | Warn_TimeScaleMismatch jsval jsval

text \<open>The list \<open>inertial\<close> is built and never read.\<close>

definition validateFrameCompatibility ::
  "jsval \<Rightarrow> jsval \<Rightarrow> string \<Rightarrow> ConsoleEntry list" where
  "validateFrameCompatibility frame1 frame2 operation =
     (let rotating = [FRAMES_ECEF, FRAMES_TOPOCENTRIC];
          inertial = [FRAMES_ICRF_BARYCENTRIC, FRAMES_HELIOCENTRIC_ECLIPTIC, FRAMES_ECI];
          isFrame1Rotating = includes_js rotating frame1;
          isFrame2Rotating = includes_js rotating frame2
      in if isFrame1Rotating \<noteq> isFrame2Rotating
         then [Warn_FrameMismatch operation frame1 frame2]
         else [])"

text \<open>
  The frame invariant as the specification words it: two values may be compared only
  if their frames are both rotating or both inertial. The two lists are those of
  \<open>validateFrameCompatibility\<close>; \<open>MOON_CENTERED\<close> is in neither.
\<close>

definition spec_frames_compatible :: "jsval \<Rightarrow> jsval \<Rightarrow> bool" where
  "spec_frames_compatible frame1 frame2 =
     (let rotating = [FRAMES_ECEF, FRAMES_TOPOCENTRIC];
          inertial = [FRAMES_ICRF_BARYCENTRIC, FRAMES_HELIOCENTRIC_ECLIPTIC, FRAMES_ECI]
      in (includes_js rotating frame1 \<and> includes_js rotating frame2)
         \<or> (includes_js inertial frame1 \<and> includes_js inertial frame2))"

text \<open>The simulated and reference values: objects with the two tags that are read.\<close>

record Tagged =
  value_frame :: jsval
  value_timeScale :: jsval

record ContractedVerifier =
  contracts :: "string \<rightharpoonup> Contract"

definition ContractedVerifier_new :: ContractedVerifier where
  "ContractedVerifier_new = \<lparr>contracts = Map.empty\<rparr>"

definition registerContract ::
  "ContractedVerifier \<Rightarrow> string \<Rightarrow> Contract \<Rightarrow> ContractedVerifier" where
  "registerContract this testId contract =
     this\<lparr>contracts := (contracts this)(testId \<mapsto> contract)\<rparr>"

definition compareWithTolerance :: "Tagged \<Rightarrow> Tagged \<Rightarrow> Tolerance \<Rightarrow> bool" where
  "compareWithTolerance simulated reference tol = True"

definition verify ::
  "ContractedVerifier \<Rightarrow> string \<Rightarrow> Tagged \<Rightarrow> Tagged \<Rightarrow> Error + (bool \<times> ConsoleEntry list)" where
  "verify this testId simulated reference =
     (case contracts this testId of
        None \<Rightarrow> Inl (NoContractRegistered testId)
      | Some contract \<Rightarrow>
          (let out1 = [Log_Verifying testId (Contract_toString contract)];
               out2 = validateFrameCompatibility (value_frame simulated)
                        (value_frame reference) testId;
               out3 = (if value_timeScale simulated \<noteq> value_timeScale reference
                       then [Warn_TimeScaleMismatch (value_timeScale simulated)
                               (value_timeScale reference)]
                       else [])
           in Inr (compareWithTolerance simulated reference (Contract_tolerance contract),
                   out1 @ out2 @ out3)))"

section \<open>Celestial mechanics: the IERS/IAU transformations\<close>




subsection \<open>PrecessionNutation\<close>







subsection \<open>EarthRotation and PolarMotion\<close>

definition earthRotationAngle :: "number \<Rightarrow> number" where
  "earthRotationAngle jdUT1 =
     (let Du = num_sub jdUT1 (lit 2451545);
          theta = num_add (lit (779057273264 / 1000000000000))
                    (num_mul (lit (100273781191135448 / 100000000000000000)) Du);
          theta = num_rem theta (lit 1);
          theta = (if num_lt theta (lit 0) then num_add theta (lit 1) else theta)
      in num_mul (num_mul theta (lit 2)) Math_PI)"


subsection \<open>IAUTransform.ecefToGCRF\<close>














section \<open>Auxiliary facts\<close>

lemmas scale_defs = TIME_SCALES_UTC_def TIME_SCALES_TAI_def TIME_SCALES_TT_def
  TIME_SCALES_TDB_def TIME_SCALES_UT1_def TIME_SCALES_GPS_def

subsection \<open>Rounding is exact on the integers below \<open>2^53\<close>\<close>

lemma ilog2_nonneg: "0 \<le> ilog2 n"
  by (induction n rule: ilog2.induct) (subst ilog2.simps, simp)

lemma ilog2_less: "1 \<le> n \<Longrightarrow> n < 2 ^ k \<Longrightarrow> ilog2 n < int k"
proof (induction k arbitrary: n)
  case 0
  then show ?case by simp
next
  case (Suc k)
  show ?case
  proof (cases "n < 2")
    case True
    then show ?thesis by (subst ilog2.simps) simp
  next
    case False
    then have "1 \<le> n div 2" by simp
    moreover from Suc.prems have "n div 2 < 2 ^ k" by simp
    ultimately have "ilog2 (n div 2) < int k" by (rule Suc.IH)
    with False show ?thesis by (subst ilog2.simps) simp
  qed
qed

lemma round_ties_even_of_int: "round_ties_even (of_int m) = m"
  by (simp add: round_ties_even_def)

lemma pow2_nonpos: "j \<le> 0 \<Longrightarrow> pow2 j = 1 / 2 ^ nat (- j)"
  by (auto simp: pow2_def)

lemma fl_of_int:
  assumes "\<bar>n\<bar> < 2 ^ 53"
  shows "fl (of_int n) = of_int n"
proof (cases "n = 0")
  case True
  then show ?thesis by (simp add: fl_def)
next
  case False
  define a where "a = \<bar>n\<bar>"
  define e where "e = ilog2 a"
  have a1: "1 \<le> a" using False by (simp add: a_def)
  have abs_eq: "\<bar>of_int n :: rat\<bar> = of_int a" by (simp add: a_def)
  have "binade (of_int a) = e" using a1 by (simp add: binade_def e_def)
  moreover have e0: "0 \<le> e" by (simp add: e_def ilog2_nonneg)
  moreover have e53: "e < 53" using ilog2_less [OF a1, of 53] assms by (simp add: e_def a_def)
  ultimately have u: "pow2 (max (binade \<bar>of_int n\<bar>) (- 1022) - 52) = 1 / 2 ^ nat (52 - e)"
    by (simp add: abs_eq pow2_nonpos)
  define j where "j = nat (52 - e)"
  have q: "(of_int n :: rat) / (1 / 2 ^ j) = of_int (n * 2 ^ j)"
    by simp
  have "fl (of_int n) = of_int (round_ties_even (of_int n / (1 / 2 ^ j))) * (1 / 2 ^ j)"
    using False by (simp add: fl_def u Let_def j_def)
  also have "\<dots> = of_int (n * 2 ^ j) * (1 / 2 ^ j)"
    by (simp only: q round_ties_even_of_int)
  also have "\<dots> = of_int n"
    by simp
  finally show ?thesis .
qed

lemma num_add_int:
  "\<bar>a + b\<bar> < 2 ^ 53 \<Longrightarrow>
   num_add (Finite (of_int a)) (Finite (of_int b)) = Finite (of_int (a + b))"
  using fl_of_int [of "a + b"] by simp

lemma num_sub_int:
  "\<bar>a - b\<bar> < 2 ^ 53 \<Longrightarrow>
   num_sub (Finite (of_int a)) (Finite (of_int b)) = Finite (of_int (a - b))"
  using fl_of_int [of "a - b"] by simp

lemma num_mul_int:
  "\<bar>a * b\<bar> < 2 ^ 53 \<Longrightarrow>
   num_mul (Finite (of_int a)) (Finite (of_int b)) = Finite (of_int (a * b))"
  using fl_of_int [of "a * b"] by simp

subsection \<open>Rounding an integer less \<open>2^(-38)\<close>\<close>

lemma ilog2_ge: "2 ^ k \<le> n \<Longrightarrow> int k \<le> ilog2 n"
proof (induction k arbitrary: n)
  case 0
  then show ?case by (simp add: ilog2_nonneg)
next
  case (Suc k)
  have "(1::int) \<le> 2 ^ k" by simp
  then have "(2::int) \<le> 2 ^ Suc k" by simp
  with Suc.prems have n2: "\<not> n < 2" by linarith
  from Suc.prems have "2 ^ k \<le> n div 2" by simp
  then have "int k \<le> ilog2 (n div 2)" by (rule Suc.IH)
  with n2 show ?case by (subst ilog2.simps) simp
qed

lemma half_pow_le: "1 \<le> k \<Longrightarrow> (1::rat) / 2 ^ k \<le> 1 / 2"
proof -
  assume "1 \<le> k"
  then have "(2::rat) ^ 1 \<le> 2 ^ k" by (intro power_increasing) simp_all
  then show ?thesis by (simp add: field_simps)
qed

lemma quarter_pow_le: "2 \<le> k \<Longrightarrow> (1::rat) / 2 ^ k \<le> 1 / 4"
proof -
  assume "2 \<le> k"
  then have "(2::rat) ^ 2 \<le> 2 ^ k" by (intro power_increasing) simp_all
  then show ?thesis by (simp add: field_simps)
qed

lemma floor_minus_tiny:
  assumes "1 \<le> k"
  shows "\<lfloor>of_int N - (1::rat) / 2 ^ k\<rfloor> = N - 1"
proof (rule floor_unique)
  have pos: "(0::rat) < 1 / 2 ^ k" by simp
  have le: "(1::rat) / 2 ^ k \<le> 1 / 2" using assms by (rule half_pow_le)
  show "of_int (N - 1) \<le> of_int N - (1::rat) / 2 ^ k"
    using le by simp
  show "of_int N - (1::rat) / 2 ^ k < of_int (N - 1) + 1"
    using pos by simp
qed

lemma round_ties_even_up:
  assumes "\<lfloor>q\<rfloor> = n" and "q - of_int n = r" and "1 / 2 < r \<or> (r = 1 / 2 \<and> odd n)"
  shows "round_ties_even q = n + 1"
  using assms by (auto simp: round_ties_even_def Let_def)

lemma round_ties_even_minus:
  assumes "1 \<le> k" and "k = 1 \<longrightarrow> even N"
  shows "round_ties_even (of_int N - 1 / 2 ^ k) = N"
proof -
  define t :: rat where "t = 1 / 2 ^ k"
  have fl: "\<lfloor>of_int N - t\<rfloor> = N - 1"
    unfolding t_def using assms(1) by (rule floor_minus_tiny)
  have r: "of_int N - t - of_int (N - 1) = 1 - t" by simp
  have "1 / 2 < 1 - t \<or> (1 - t = 1 / 2 \<and> odd (N - 1))"
  proof (cases "k = 1")
    case True
    then have "t = 1 / 2" by (simp add: t_def)
    with assms(2) True show ?thesis by simp
  next
    case False
    with assms(1) have "2 \<le> k" by simp
    then have "t \<le> 1 / 4" unfolding t_def by (rule quarter_pow_le)
    then show ?thesis by simp
  qed
  with fl r have "round_ties_even (of_int N - t) = N - 1 + 1"
    by (rule round_ties_even_up)
  then show ?thesis by (simp add: t_def)
qed

lemma pow2_ratio:
  assumes "j \<le> n"
  shows "(2::rat) ^ j / 2 ^ n = 1 / 2 ^ (n - j)"
proof -
  have "(2::rat) ^ n = 2 ^ (n - j) * 2 ^ j"
    using assms by (simp flip: power_add)
  then show ?thesis by simp
qed

lemma fl_minus_tiny:
  assumes "2 ^ 15 < X" and "X < 2 ^ 53"
  shows "fl (of_int X - 1 / 2 ^ 38) = of_int X"
proof -
  define K :: nat where "K = 38"
  define x :: rat where "x = of_int X - 1 / 2 ^ K"
  define e where "e = ilog2 (X - 1)"
  define j where "j = nat (52 - e)"
  have fx: "\<lfloor>x\<rfloor> = X - 1"
    unfolding x_def by (rule floor_minus_tiny) (simp add: K_def)
  have "(1::rat) \<le> of_int (X - 1)" using assms(1) by (simp del: of_int_diff)
  also have "\<dots> \<le> x" using fx by (metis of_int_floor_le)
  finally have x1: "1 \<le> x" .
  then have ax: "\<bar>x\<bar> = x" and x0: "x \<noteq> 0" by simp_all
  have be: "binade x = e" using x1 fx by (simp add: binade_def e_def)
  have "2 ^ 15 \<le> X - 1" using assms(1) by simp
  then have e15: "15 \<le> e" unfolding e_def using ilog2_ge [of 15 "X - 1"] by simp
  have "1 \<le> X - 1" and "X - 1 < 2 ^ 53" using assms by simp_all
  then have e53: "e < 53" unfolding e_def using ilog2_less [of "X - 1" 53] by simp
  have j37: "j < K" and je: "e - 52 = - int j" using e15 e53 by (simp_all add: j_def K_def)
  have u: "pow2 (max (binade \<bar>x\<bar>) (- 1022) - 52) = 1 / 2 ^ j"
    using e15 by (simp add: ax be je pow2_nonpos)
  have "x / (1 / 2 ^ j) = of_int X * 2 ^ j - 2 ^ j / 2 ^ K"
    by (simp add: x_def algebra_simps)
  also have "\<dots> = of_int (X * 2 ^ j) - 1 / 2 ^ (K - j)"
    using j37 by (simp add: pow2_ratio)
  finally have q: "x / (1 / 2 ^ j) = of_int (X * 2 ^ j) - 1 / 2 ^ (K - j)" .
  have "K - j = 1 \<longrightarrow> even (X * 2 ^ j)"
  proof
    assume "K - j = 1"
    then have "j = 37" using j37 by (simp add: K_def)
    then show "even (X * 2 ^ j)" by simp
  qed
  moreover have "1 \<le> K - j" using j37 by simp
  ultimately have rnd: "round_ties_even (x / (1 / 2 ^ j)) = X * 2 ^ j"
    unfolding q by (intro round_ties_even_minus)
  have "fl x = of_int (round_ties_even (x / (1 / 2 ^ j))) * (1 / 2 ^ j)"
    using x0 by (simp add: fl_def u Let_def)
  also have "\<dots> = of_int (X * 2 ^ j) * (1 / 2 ^ j)"
    by (simp only: rnd)
  also have "\<dots> = of_int X"
    by simp
  finally show ?thesis by (simp add: x_def K_def)
qed

lemma fl_one_minus_tiny: "fl (1 - 1 / 2 ^ 38) = 1 - 1 / 2 ^ 38"
  by code_simp

lemma pow2_ratio_ge:
  assumes "n \<le> j"
  shows "(2::rat) ^ j / 2 ^ n = 2 ^ (j - n)"
proof -
  have "(2::rat) ^ j = 2 ^ (j - n) * 2 ^ n"
    using assms by (simp flip: power_add)
  then show ?thesis by simp
qed

lemma fl_exact_below_2_15:
  assumes "1 \<le> X" and "X \<le> 2 ^ 15"
  shows "fl (of_int X - 1 / 2 ^ 38) = of_int X - 1 / 2 ^ 38"
proof (cases "X = 1")
  case True
  then show ?thesis using fl_one_minus_tiny by simp
next
  case False
  with assms(1) have X2: "2 \<le> X" by simp
  define K :: nat where "K = 38"
  define x :: rat where "x = of_int X - 1 / 2 ^ K"
  define e where "e = ilog2 (X - 1)"
  define j where "j = nat (52 - e)"
  have fx: "\<lfloor>x\<rfloor> = X - 1"
    unfolding x_def by (rule floor_minus_tiny) (simp add: K_def)
  have "(1::rat) \<le> of_int (X - 1)" using X2 by (simp del: of_int_diff)
  also have "\<dots> \<le> x" using fx by (metis of_int_floor_le)
  finally have x1: "1 \<le> x" .
  then have ax: "\<bar>x\<bar> = x" and x0: "x \<noteq> 0" by simp_all
  have be: "binade x = e" using x1 fx by (simp add: binade_def e_def)
  have e0: "0 \<le> e" by (simp add: e_def ilog2_nonneg)
  have "1 \<le> X - 1" and "X - 1 < 2 ^ 15" using X2 assms(2) by simp_all
  then have e15: "e < 15" unfolding e_def using ilog2_less [of "X - 1" 15] by simp
  have Kj: "K \<le> j" and je: "e - 52 = - int j" using e0 e15 by (simp_all add: j_def K_def)
  have u: "pow2 (max (binade \<bar>x\<bar>) (- 1022) - 52) = 1 / 2 ^ j"
    using e0 e15 by (simp add: ax be je pow2_nonpos)
  have "x / (1 / 2 ^ j) = of_int X * 2 ^ j - 2 ^ j / 2 ^ K"
    by (simp add: x_def algebra_simps)
  also have "\<dots> = of_int (X * 2 ^ j - 2 ^ (j - K))"
    using Kj by (simp add: pow2_ratio_ge)
  finally have q: "x / (1 / 2 ^ j) = of_int (X * 2 ^ j - 2 ^ (j - K))" .
  have "fl x = of_int (round_ties_even (x / (1 / 2 ^ j))) * (1 / 2 ^ j)"
    using x0 by (simp add: fl_def u Let_def)
  also have "\<dots> = of_int (X * 2 ^ j - 2 ^ (j - K)) * (1 / 2 ^ j)"
    by (simp only: q round_ties_even_of_int)
  also have "\<dots> = x / (1 / 2 ^ j) * (1 / 2 ^ j)"
    by (simp only: q)
  also have "\<dots> = x"
    by simp
  finally show ?thesis by (simp add: x_def K_def)
qed

lemma TT_offset: "num_mul (lit (32184 / 1000)) (Finite 1000) = Finite (32184 - 1 / 2 ^ 38)"
  by code_simp

subsection \<open>Time values of Date objects\<close>

lemma TimeClip_of_int:
  "\<bar>m\<bar> \<le> 8640000000000000 \<Longrightarrow> TimeClip (Finite (of_int m)) = Finite (of_int m)"
  by (simp add: TimeClip_def ToIntegerOrInfinity_def flip: of_int_abs)

lemma is_Date_cases:
  "is_Date d \<longleftrightarrow>
     getTime d = NaN \<or> (\<exists>m. \<bar>m\<bar> \<le> 8640000000000000 \<and> getTime d = Finite (of_int m))"
proof
  assume "is_Date d"
  then show "getTime d = NaN \<or> (\<exists>m. \<bar>m\<bar> \<le> 8640000000000000 \<and> getTime d = Finite (of_int m))"
  proof (cases "getTime d")
    case NaN
    then show ?thesis by simp
  next
    case (Finite x)
    assume "is_Date d"
    with Finite have le: "\<bar>x\<bar> \<le> 8640000000000000" and eq: "x = of_int (ToIntegerOrInfinity x)"
      by (auto simp: is_Date_def TimeClip_def split: if_splits)
    from le eq have "\<bar>ToIntegerOrInfinity x\<bar> \<le> 8640000000000000"
      by (metis of_int_abs of_int_le_numeral_iff)
    with eq Finite show ?thesis by metis
  qed
next
  assume "getTime d = NaN \<or> (\<exists>m. \<bar>m\<bar> \<le> 8640000000000000 \<and> getTime d = Finite (of_int m))"
  then show "is_Date d"
    by (auto simp: is_Date_def TimeClip_of_int) (simp add: TimeClip_def)
qed

lemma num_ge_trans: "num_ge a b \<Longrightarrow> num_ge b c \<Longrightarrow> num_ge a c"
  by (cases a; cases b; cases c) auto

lemma date_ge_trans: "date_ge a b \<Longrightarrow> date_ge b c \<Longrightarrow> date_ge a c"
  unfolding date_ge_def by (rule num_ge_trans)

subsection \<open>The loop of \<open>getLeapSeconds\<close> on a table in date order\<close>

lemma leap_loop_filter:
  "date_sorted es \<Longrightarrow>
   leap_loop d es acc =
     (case filter (\<lambda>entry. date_ge d (date entry)) es of
        [] \<Rightarrow> acc
      | _ # _ \<Rightarrow> leapSeconds (last (filter (\<lambda>entry. date_ge d (date entry)) es)))"
proof (induction es arbitrary: acc)
  case Nil
  then show ?case by simp
next
  case (Cons e rest)
  from Cons.prems have later: "\<forall>b \<in> set rest. date_ge (date b) (date e)"
    and sorted_rest: "date_sorted rest"
    by (simp_all add: date_sorted_def)
  show ?case
  proof (cases "date_ge d (date e)")
    case True
    then show ?thesis
      using Cons.IH [OF sorted_rest, of "leapSeconds e"]
      by (simp split: list.splits)
  next
    case False
    have "\<not> date_ge d (date b)" if "b \<in> set rest" for b
      using that later False date_ge_trans by blast
    then have "filter (\<lambda>entry. date_ge d (date entry)) rest = []"
      by (simp add: filter_empty_conv)
    with False show ?thesis by simp
  qed
qed

lemma LEAP_SECONDS_sorted: "date_sorted LEAP_SECONDS"
  by code_simp

lemma first_date: "newDateISO 1972 1 1 = Date (Finite 63072000000)"
  by code_simp

lemma first_entry_least: "\<forall>e\<in>set LEAP_SECONDS. date_ge (date e) (newDateISO 1972 1 1)"
  by code_simp

lemma first_entry_mem: "\<exists>e\<in>set LEAP_SECONDS. date e = newDateISO 1972 1 1"
  by code_simp

lemma LEAP_SECONDS_offsets:
  "\<forall>e\<in>set LEAP_SECONDS. leapSeconds e \<in> set (map (\<lambda>k. Finite (of_int k)) [10..37])"
  by code_simp

lemma getLeapSeconds_table:
  "getLeapSeconds d = (case table_leap_seconds d of None \<Rightarrow> Finite 10 | Some n \<Rightarrow> n)"
  unfolding getLeapSeconds_def table_leap_seconds_def entries_upto_def
  by (simp add: leap_loop_filter [OF LEAP_SECONDS_sorted] split: list.splits)

lemma entries_upto_nonempty:
  "entries_upto d \<noteq> [] \<longleftrightarrow> date_ge d (newDateISO 1972 1 1)"
proof
  assume "entries_upto d \<noteq> []"
  then obtain e where e: "e \<in> set LEAP_SECONDS" "date_ge d (date e)"
    unfolding entries_upto_def by (auto simp: filter_empty_conv)
  from e(1) have "date_ge (date e) (newDateISO 1972 1 1)"
    using first_entry_least by blast
  with e(2) show "date_ge d (newDateISO 1972 1 1)"
    by (rule date_ge_trans)
next
  assume "date_ge d (newDateISO 1972 1 1)"
  moreover obtain e where "e \<in> set LEAP_SECONDS" and "date e = newDateISO 1972 1 1"
    using first_entry_mem by blast
  ultimately have "\<exists>e\<in>set LEAP_SECONDS. date_ge d (date e)"
    by metis
  then show "entries_upto d \<noteq> []"
    unfolding entries_upto_def by (simp add: filter_empty_conv)
qed

lemma table_leap_seconds_None:
  "table_leap_seconds d = None \<longleftrightarrow> \<not> date_ge d (newDateISO 1972 1 1)"
  using entries_upto_nonempty [of d]
  by (auto simp: table_leap_seconds_def split: list.splits)

lemma table_leap_seconds_Some:
  assumes "date_ge d (newDateISO 1972 1 1)"
  shows "table_leap_seconds d = Some (getLeapSeconds d)"
proof -
  from assms obtain n where "table_leap_seconds d = Some n"
    using table_leap_seconds_None [of d] by (cases "table_leap_seconds d") auto
  then show ?thesis by (simp add: getLeapSeconds_table)
qed

lemma table_leap_seconds_int:
  assumes "table_leap_seconds d = Some n"
  shows "\<exists>k. 10 \<le> k \<and> k \<le> 37 \<and> n = Finite (of_int k)"
proof -
  from assms have ne: "entries_upto d \<noteq> []" and n: "n = leapSeconds (last (entries_upto d))"
    by (auto simp: table_leap_seconds_def split: list.splits)
  from ne have "last (entries_upto d) \<in> set (entries_upto d)" by (rule last_in_set)
  then have "last (entries_upto d) \<in> set LEAP_SECONDS" by (simp add: entries_upto_def)
  with LEAP_SECONDS_offsets n have "n \<in> set (map (\<lambda>k. Finite (of_int k)) [10..37])"
    by blast
  then show ?thesis by auto
qed

lemma getLeapSeconds_int: "\<exists>k. 10 \<le> k \<and> k \<le> 37 \<and> getLeapSeconds d = Finite (of_int k)"
proof (cases "table_leap_seconds d")
  case None
  then have "getLeapSeconds d = Finite (of_int 10)"
    by (simp add: getLeapSeconds_table)
  then show ?thesis by (intro exI [of _ 10]) simp
next
  case (Some n)
  then have "getLeapSeconds d = n" by (simp add: getLeapSeconds_table)
  with Some show ?thesis using table_leap_seconds_int by blast
qed

lemma getLeapSeconds_before_1972:
  assumes "\<not> date_ge d (newDateISO 1972 1 1)"
  shows "getLeapSeconds d = Finite 10"
proof -
  from assms have "table_leap_seconds d = None"
    using table_leap_seconds_None by blast
  then show ?thesis by (simp add: getLeapSeconds_table)
qed

subsection \<open>The value of \<open>utcToTAI\<close> inside the range of Date\<close>

lemma utcToTAI_value:
  assumes "is_Date d"
    and "getTime d \<noteq> NaN"
    and "date_ge (Date (Finite (of_int hi))) d"
    and "hi \<le> 8639999999963000"
  shows "\<exists>m k. getTime d = Finite (of_int m) \<and> - 8640000000000000 \<le> m \<and> m \<le> hi
           \<and> 10 \<le> k \<and> k \<le> 37 \<and> getLeapSeconds d = Finite (of_int k)
           \<and> utcToTAI d = Date (Finite (of_int (m + k * 1000)))"
proof -
  from assms(1,2) obtain m where m: "getTime d = Finite (of_int m)"
    and range: "\<bar>m\<bar> \<le> 8640000000000000"
    by (auto simp: is_Date_cases)
  from range have lo: "- 8640000000000000 \<le> m" by simp
  from assms(3) m have hi: "m \<le> hi"
    by (simp add: date_ge_def)
  obtain k where k: "10 \<le> k" "k \<le> 37" "getLeapSeconds d = Finite (of_int k)"
    using getLeapSeconds_int by blast
  have "num_mul (Finite (of_int k)) (Finite 1000) = Finite (of_int (k * 1000))"
    using num_mul_int [of k 1000] k(1,2) by simp
  moreover have "num_add (Finite (of_int m)) (Finite (of_int (k * 1000)))
      = Finite (of_int (m + k * 1000))"
    using lo hi assms(4) k(1,2) by (intro num_add_int) simp
  moreover have "TimeClip (Finite (of_int (m + k * 1000))) = Finite (of_int (m + k * 1000))"
    using lo hi assms(4) k(1,2) by (intro TimeClip_of_int) simp
  ultimately have "utcToTAI d = Date (Finite (of_int (m + k * 1000)))"
    by (simp add: utcToTAI_def Let_def k(3) m newDate_def)
  with m lo hi k show ?thesis by blast
qed

lemma date_ge_not_NaN: "date_ge d e \<Longrightarrow> getTime d \<noteq> NaN"
  by (cases "getTime d") (auto simp: date_ge_def)

lemma convert_TAI_UTC:
  "convert sin64 t TIME_SCALES_TAI TIME_SCALES_UTC
     = Inr (newDate (num_sub (getTime t) (num_mul (getLeapSeconds t) (Finite 1000))))"
  by (simp add: convert_def Let_def scale_defs)

section \<open>Claims on TimeConverter\<close>

text \<open>
  Claim C1, amended. For every Date \<open>d\<close> on or after 1972-01-01 whose time value is
  at most \<open>8.64e15 - 37000\<close> ms, the table assigns \<open>d\<close> a whole number \<open>k\<close> of leap
  seconds and \<open>utcToTAI(d) - d\<close> is \<open>1000 * k\<close> ms. The bound keeps the TAI instant
  inside the range of Date; the claim as written has no such bound.
\<close>

theorem utcToTAI_minus_utc:
  assumes "is_Date d"
    and "date_ge d (newDateISO 1972 1 1)"
    and "date_ge (Date (Finite 8639999999963000)) d"
  shows "\<exists>k. table_leap_seconds d = Some (Finite (of_int k))
           \<and> date_minus (utcToTAI d) d = Finite (of_int (1000 * k))"
proof -
  have "getTime d \<noteq> NaN"
    using assms(2) by (rule date_ge_not_NaN)
  moreover have "date_ge (Date (Finite (of_int 8639999999963000))) d"
    using assms(3) by simp
  ultimately obtain m k where m: "getTime d = Finite (of_int m)"
    and k: "10 \<le> k" "k \<le> 37" "getLeapSeconds d = Finite (of_int k)"
    and tai: "utcToTAI d = Date (Finite (of_int (m + k * 1000)))"
    using utcToTAI_value [OF assms(1), of 8639999999963000] by auto
  from assms(2) have tab: "table_leap_seconds d = Some (getLeapSeconds d)"
    by (rule table_leap_seconds_Some)
  have "num_sub (Finite (of_int (m + k * 1000))) (Finite (of_int m))
      = Finite (of_int (m + k * 1000 - m))"
    using k(1,2) by (intro num_sub_int) simp
  then have "date_minus (utcToTAI d) d = Finite (of_int (1000 * k))"
    by (simp add: date_minus_def tai m mult.commute)
  with tab k(3) show ?thesis by auto
qed

theorem utcToTAI_minus_utc_witness:
  "is_Date (newDateISO 2016 6 1)
   \<and> date_ge (newDateISO 2016 6 1) (newDateISO 1972 1 1)
   \<and> date_ge (Date (Finite 8639999999963000)) (newDateISO 2016 6 1)
   \<and> table_leap_seconds (newDateISO 2016 6 1) = Some (Finite 36)
   \<and> date_minus (utcToTAI (newDateISO 2016 6 1)) (newDateISO 2016 6 1) = Finite 36000"
proof -
  have a: "is_Date (newDateISO 2016 6 1)" by code_simp
  have b: "date_ge (newDateISO 2016 6 1) (newDateISO 1972 1 1)" by code_simp
  have c: "date_ge (Date (Finite 8639999999963000)) (newDateISO 2016 6 1)" by code_simp
  have t: "table_leap_seconds (newDateISO 2016 6 1) = Some (Finite 36)" by code_simp
  from utcToTAI_minus_utc [OF a b c] t
  have "date_minus (utcToTAI (newDateISO 2016 6 1)) (newDateISO 2016 6 1) = Finite 36000"
    by auto
  with a b c t show ?thesis by simp
qed

text \<open>
  Claim C1 as written fails at the last instant a Date can hold, \<open>new Date(8.64e15)\<close>:
  the table assigns it 37 leap seconds, but \<open>8.64e15 + 37000\<close> is outside the range
  of \<open>TimeClip\<close>, so \<open>utcToTAI\<close> returns an Invalid Date and the difference is \<open>NaN\<close>.
\<close>

theorem utcToTAI_range_counterexample:
  "is_Date (Date (Finite 8640000000000000))
   \<and> date_ge (Date (Finite 8640000000000000)) (newDateISO 1972 1 1)
   \<and> table_leap_seconds (Date (Finite 8640000000000000)) = Some (Finite 37)
   \<and> utcToTAI (Date (Finite 8640000000000000)) = Date NaN
   \<and> date_minus (utcToTAI (Date (Finite 8640000000000000))) (Date (Finite 8640000000000000))
       = NaN"
  by code_simp

text \<open>
  Claim C2 at a failing input. The round trip UTC to TAI to UTC does not return the
  original instant just before a leap second takes effect: for
  \<open>d = 2016-12-31T23:59:59.999Z\<close> (\<open>1483228799999\<close> ms) \<open>utcToTAI\<close> adds 36 s, but
  \<open>convert\<close> looks the TAI timestamp up in the table of UTC dates, finds 37 s and
  returns \<open>d - 1000\<close> ms.
\<close>

theorem round_trip_leap_boundary:
  "convert sin64 (utcToTAI (Date (Finite 1483228799999))) TIME_SCALES_TAI TIME_SCALES_UTC
     = Inr (Date (Finite 1483228798999))
   \<and> utcToTAI (Date (Finite 1483228799999)) = Date (Finite 1483228835999)
   \<and> getLeapSeconds (Date (Finite 1483228799999)) = Finite 36
   \<and> getLeapSeconds (Date (Finite 1483228835999)) = Finite 37"
  by code_simp

theorem round_trip_leap_boundary_witness:
  "convert (\<lambda>x. 0) (utcToTAI (Date (Finite 1483228799999))) TIME_SCALES_TAI TIME_SCALES_UTC
     \<noteq> Inr (Date (Finite 1483228799999))"
proof -
  have "convert (\<lambda>x. 0) (utcToTAI (Date (Finite 1483228799999))) TIME_SCALES_TAI
      TIME_SCALES_UTC = Inr (Date (Finite 1483228798999))"
    by (rule round_trip_leap_boundary [of "\<lambda>x. 0", THEN conjunct1])
  then show ?thesis by simp
qed

text \<open>
  The round trip does return the original instant whenever the lookup on the TAI
  timestamp finds the same count as the lookup on \<open>d\<close>, and the TAI instant is inside
  the range of Date.
\<close>

lemma round_trip_same_count:
  assumes "is_Date d"
    and "getTime d \<noteq> NaN"
    and "date_ge (Date (Finite 8639999999963000)) d"
    and "getLeapSeconds (utcToTAI d) = getLeapSeconds d"
  shows "convert sin64 (utcToTAI d) TIME_SCALES_TAI TIME_SCALES_UTC = Inr d"
proof -
  have "date_ge (Date (Finite (of_int 8639999999963000))) d"
    using assms(3) by simp
  with assms(2) obtain m k where m: "getTime d = Finite (of_int m)"
    and range: "- 8640000000000000 \<le> m" "m \<le> 8639999999963000"
    and k: "10 \<le> k" "k \<le> 37" "getLeapSeconds d = Finite (of_int k)"
    and tai: "utcToTAI d = Date (Finite (of_int (m + k * 1000)))"
    using utcToTAI_value [OF assms(1), of 8639999999963000] by auto
  have mul: "num_mul (Finite (of_int k)) (Finite 1000) = Finite (of_int (k * 1000))"
    using num_mul_int [of k 1000] k(1,2) by simp
  have "num_sub (Finite (of_int (m + k * 1000))) (Finite (of_int (k * 1000)))
      = Finite (of_int (m + k * 1000 - k * 1000))"
    using range k(1,2) by (intro num_sub_int) simp
  then have sub: "num_sub (Finite (of_int (m + k * 1000))) (Finite (of_int (k * 1000)))
      = Finite (of_int m)"
    by simp
  have clip: "TimeClip (Finite (of_int m)) = Finite (of_int m)"
    using range by (intro TimeClip_of_int) simp
  have d: "d = Date (Finite (of_int m))"
    using m by (cases d) simp
  have ls: "getLeapSeconds (utcToTAI d) = Finite (of_int k)"
    using assms(4) k(3) by simp
  have "convert sin64 (utcToTAI d) TIME_SCALES_TAI TIME_SCALES_UTC
      = Inr (newDate (num_sub (getTime (utcToTAI d))
               (num_mul (getLeapSeconds (utcToTAI d)) (Finite 1000))))"
    by (rule convert_TAI_UTC)
  also have "\<dots> = Inr (newDate (num_sub (Finite (of_int (m + k * 1000)))
               (Finite (of_int (k * 1000)))))"
    by (simp only: ls mul) (simp only: tai Date.sel)
  also have "\<dots> = Inr (Date (Finite (of_int m)))"
    by (simp only: sub newDate_def clip)
  finally show ?thesis by (simp only: d [symmetric])
qed

text \<open>
  Claim C3, amended. For every Date \<open>d\<close> on or after 1972-01-01, the date of the first
  entry, \<open>getLeapSeconds\<close> returns the offset of the last entry of the table whose
  date is at most \<open>d\<close>; for every other argument (an earlier date, an Invalid Date) no
  entry qualifies and it returns the default 10. \<open>getLeapSeconds(new Date('2016-06-01'))\<close>
  is 36.
\<close>

theorem getLeapSeconds_last_entry:
  "date_sorted LEAP_SECONDS
   \<and> (date_ge d (newDateISO 1972 1 1) \<longrightarrow> table_leap_seconds d = Some (getLeapSeconds d))
   \<and> (\<not> date_ge d (newDateISO 1972 1 1) \<longrightarrow>
        table_leap_seconds d = None \<and> getLeapSeconds d = Finite 10)
   \<and> getLeapSeconds (newDateISO 2016 6 1) = Finite 36"
proof (intro conjI impI)
  show "date_sorted LEAP_SECONDS"
    by (rule LEAP_SECONDS_sorted)
next
  assume "date_ge d (newDateISO 1972 1 1)"
  then show "table_leap_seconds d = Some (getLeapSeconds d)"
    by (rule table_leap_seconds_Some)
next
  assume "\<not> date_ge d (newDateISO 1972 1 1)"
  then show "table_leap_seconds d = None"
    by (simp add: table_leap_seconds_None)
next
  assume "\<not> date_ge d (newDateISO 1972 1 1)"
  then have "table_leap_seconds d = None"
    by (simp add: table_leap_seconds_None)
  then show "getLeapSeconds d = Finite 10"
    by (simp add: getLeapSeconds_table)
next
  show "getLeapSeconds (newDateISO 2016 6 1) = Finite 36"
    by code_simp
qed

theorem getLeapSeconds_last_entry_witness:
  "date_ge (newDateISO 2016 6 1) (newDateISO 1972 1 1)
   \<and> table_leap_seconds (newDateISO 2016 6 1) = Some (Finite 36)
   \<and> \<not> date_ge (Date (Finite 0)) (newDateISO 1972 1 1)
   \<and> getLeapSeconds (Date (Finite 0)) = Finite 10"
proof -
  have a: "date_ge (newDateISO 2016 6 1) (newDateISO 1972 1 1)" by code_simp
  have b: "\<not> date_ge (Date (Finite 0)) (newDateISO 1972 1 1)" by code_simp
  show ?thesis
    using a b getLeapSeconds_last_entry [of "newDateISO 2016 6 1"]
      getLeapSeconds_last_entry [of "Date (Finite 0)"]
    by simp
qed

text \<open>
  Claim C3 as written, for every input date, fails before 1972: for \<open>new Date(0)\<close> the
  table has no entry dated at or before the argument, so the returned 10 is not the
  offset of a last such entry.
\<close>

theorem getLeapSeconds_before_1972_counterexample:
  "entries_upto (Date (Finite 0)) = []
   \<and> table_leap_seconds (Date (Finite 0)) \<noteq> Some (getLeapSeconds (Date (Finite 0)))"
  by code_simp

text \<open>
  Claim C4 at a failing input. In binary64 the product \<open>32.184 * 1000\<close> is
  \<open>32184 - 2^(-38)\<close>, not 32184. For \<open>d = 1969-12-31T23:59:50Z\<close> (\<open>-10000\<close> ms)
  \<open>utcToTAI(d)\<close> has time value 0, the sum \<open>0 + 32183.999999999996\<close> is exact and
  \<open>new Date\<close> truncates it: \<open>utcToTT(d) - utcToTAI(d)\<close> is 32183 ms, not 32184.
\<close>

theorem utcToTT_rounding:
  "date_minus (utcToTT (Date (Finite (- 10000)))) (utcToTAI (Date (Finite (- 10000))))
     = Finite 32183
   \<and> utcToTAI (Date (Finite (- 10000))) = Date (Finite 0)
   \<and> utcToTT (Date (Finite (- 10000))) = Date (Finite 32183)
   \<and> num_mul (lit (32184 / 1000)) (Finite 1000) = Finite (32184 - 1 / 2 ^ 38)"
  by code_simp

theorem utcToTT_rounding_witness:
  "is_Date (Date (Finite (- 10000)))
   \<and> date_minus (utcToTT (Date (Finite (- 10000)))) (utcToTAI (Date (Finite (- 10000))))
       \<noteq> Finite 32184"
proof -
  have "is_Date (Date (Finite (- 10000)))" by code_simp
  moreover have "date_minus (utcToTT (Date (Finite (- 10000))))
      (utcToTAI (Date (Finite (- 10000)))) = Finite 32183"
    by (rule utcToTT_rounding [THEN conjunct1])
  ultimately show ?thesis by simp
qed

text \<open>
  From 1972-01-01 on, as long as the TT instant is inside the range of Date, the sum
  rounds to the integer and the difference is 32184 ms.
\<close>

lemma utcToTT_since_1972:
  assumes "is_Date d"
    and "date_ge d (newDateISO 1972 1 1)"
    and "date_ge (Date (Finite 8639999999930816)) d"
  shows "date_minus (utcToTT d) (utcToTAI d) = Finite 32184"
proof -
  have ge: "date_ge d (Date (Finite 63072000000))"
    using assms(2) by (simp only: first_date)
  have "getTime d \<noteq> NaN"
    using assms(2) by (rule date_ge_not_NaN)
  moreover have "date_ge (Date (Finite (of_int 8639999999930816))) d"
    using assms(3) by simp
  ultimately obtain m k where m: "getTime d = Finite (of_int m)"
    and hi: "m \<le> 8639999999930816"
    and k: "10 \<le> k" "k \<le> 37"
    and tai: "utcToTAI d = Date (Finite (of_int (m + k * 1000)))"
    using utcToTAI_value [OF assms(1), of 8639999999930816] by auto
  from ge m have lo: "63072000000 \<le> m"
    by (simp add: date_ge_def)
  define M where "M = m + k * 1000"
  have M: "63072000000 \<le> M" "M \<le> 8639999999967816"
    using lo hi k by (simp_all add: M_def)
  note tai' = tai [folded M_def]
  have sum: "of_int M + (32184 - 1 / 2 ^ 38) = (of_int (M + 32184) :: rat) - 1 / 2 ^ 38"
    by simp
  have rnd: "fl (of_int (M + 32184) - 1 / 2 ^ 38) = of_int (M + 32184)"
    using M by (intro fl_minus_tiny) simp_all
  have clip: "TimeClip (Finite (of_int (M + 32184))) = Finite (of_int (M + 32184))"
    using M by (intro TimeClip_of_int) simp
  have "utcToTT d
      = newDate (num_add (Finite (of_int M)) (num_mul (lit (32184 / 1000)) (Finite 1000)))"
    by (simp only: utcToTT_def Let_def tai' Date.sel)
  also have "\<dots> = newDate (num_add (Finite (of_int M)) (Finite (32184 - 1 / 2 ^ 38)))"
    by (simp only: TT_offset)
  also have "\<dots> = newDate (Finite (of_int (M + 32184)))"
    by (simp only: num_add.simps sum rnd)
  also have "\<dots> = Date (Finite (of_int (M + 32184)))"
    by (simp only: newDate_def clip)
  finally have tt: "utcToTT d = Date (Finite (of_int (M + 32184)))" .
  have "num_sub (Finite (of_int (M + 32184))) (Finite (of_int M))
      = Finite (of_int (M + 32184 - M))"
    by (intro num_sub_int) simp
  then show ?thesis
    by (simp add: date_minus_def tt tai')
qed

text \<open>
  The difference is 32183 ms for every \<open>d\<close> from \<open>-42183\<close> to \<open>-9416\<close> ms: there
  the TAI time value lies between \<open>-32183\<close> and 584, the sum with
  \<open>32184 - 2^(-38)\<close> is a positive binary64 value below \<open>2^15\<close>, and truncation
  removes its fraction.
\<close>

lemma utcToTT_before_epoch:
  assumes "is_Date d"
    and "date_ge d (Date (Finite (- 42183)))"
    and "date_ge (Date (Finite (- 9416))) d"
  shows "date_minus (utcToTT d) (utcToTAI d) = Finite 32183"
proof -
  have nn: "getTime d \<noteq> NaN"
    using assms(2) by (rule date_ge_not_NaN)
  with assms(1) obtain m where m: "getTime d = Finite (of_int m)"
    by (auto simp: is_Date_cases)
  from assms(2,3) m have range: "- 42183 \<le> m" "m \<le> - 9416"
    by (simp_all add: date_ge_def)
  have "\<not> date_ge d (newDateISO 1972 1 1)"
    unfolding first_date using m range by (simp add: date_ge_def)
  then have "getLeapSeconds d = Finite 10"
    by (rule getLeapSeconds_before_1972)
  then have ls: "getLeapSeconds d = Finite (of_int 10)"
    by simp
  define M where "M = m + 10000"
  have M: "- 32183 \<le> M" "M \<le> 584" using range by (simp_all add: M_def)
  have mul: "num_mul (Finite (of_int 10)) (Finite 1000) = Finite (of_int 10000)"
    using num_mul_int [of 10 1000] by simp
  have add: "num_add (Finite (of_int m)) (Finite (of_int 10000)) = Finite (of_int M)"
    unfolding M_def using range by (intro num_add_int) simp
  have clipM: "TimeClip (Finite (of_int M)) = Finite (of_int M)"
    using M by (intro TimeClip_of_int) simp
  have tai: "utcToTAI d = Date (Finite (of_int M))"
    by (simp only: utcToTAI_def Let_def ls m mul add newDate_def clipM)
  define x :: rat where "x = of_int (M + 32184) - 1 / 2 ^ 38"
  have sum: "of_int M + (32184 - 1 / 2 ^ 38) = x"
    by (simp add: x_def)
  have rnd: "fl x = x"
    unfolding x_def using M by (intro fl_exact_below_2_15) simp_all
  have fx: "\<lfloor>x\<rfloor> = M + 32184 - 1"
    unfolding x_def by (rule floor_minus_tiny) simp
  have "(0::rat) \<le> of_int (M + 32184 - 1)" using M by (simp del: of_int_diff of_int_add)
  also have "\<dots> \<le> x" using fx by (metis of_int_floor_le)
  finally have x0: "0 \<le> x" .
  have "x \<le> of_int (M + 32184)" by (simp add: x_def)
  also have "\<dots> \<le> 8640000000000000" using M by simp
  finally have xle: "\<bar>x\<bar> \<le> 8640000000000000" using x0 by simp
  have clip: "TimeClip (Finite x) = Finite (of_int (M + 32183))"
    using x0 xle fx by (simp add: TimeClip_def ToIntegerOrInfinity_def)
  have "utcToTT d
      = newDate (num_add (Finite (of_int M)) (num_mul (lit (32184 / 1000)) (Finite 1000)))"
    by (simp only: utcToTT_def Let_def tai Date.sel)
  also have "\<dots> = newDate (num_add (Finite (of_int M)) (Finite (32184 - 1 / 2 ^ 38)))"
    by (simp only: TT_offset)
  also have "\<dots> = newDate (Finite x)"
    by (simp only: num_add.simps sum rnd)
  also have "\<dots> = Date (Finite (of_int (M + 32183)))"
    by (simp only: newDate_def clip)
  finally have tt: "utcToTT d = Date (Finite (of_int (M + 32183)))" .
  have "num_sub (Finite (of_int (M + 32183))) (Finite (of_int M))
      = Finite (of_int (M + 32183 - M))"
    by (intro num_sub_int) simp
  then show ?thesis
    by (simp add: date_minus_def tt tai)
qed

text \<open>
  Just outside that window, and on a present-day date, the difference is 32184 ms.
\<close>

lemma utcToTT_window:
  "date_minus (utcToTT (Date (Finite (- 42184)))) (utcToTAI (Date (Finite (- 42184))))
     = Finite 32184
   \<and> date_minus (utcToTT (Date (Finite (- 42183)))) (utcToTAI (Date (Finite (- 42183))))
       = Finite 32183
   \<and> date_minus (utcToTT (Date (Finite (- 9416)))) (utcToTAI (Date (Finite (- 9416))))
       = Finite 32183
   \<and> date_minus (utcToTT (Date (Finite (- 9415)))) (utcToTAI (Date (Finite (- 9415))))
       = Finite 32184
   \<and> date_minus (utcToTT (newDateISO 2016 6 1)) (utcToTAI (newDateISO 2016 6 1))
       = Finite 32184"
  by code_simp

text \<open>
  Claim C5. For every timestamp \<open>t\<close> and every scale \<open>s\<close>, \<open>convert(t, s, s)\<close> returns
  \<open>t\<close> unchanged; in particular for GPS, which is a member of \<open>TIME_SCALES\<close>.
\<close>

theorem convert_same_scale:
  "convert sin64 t s s = Inr t
   \<and> convert sin64 t TIME_SCALES_GPS TIME_SCALES_GPS = Inr t
   \<and> includes_js (Object_values TIME_SCALES) (Str TIME_SCALES_GPS)"
  by (simp add: convert_def includes_js_def Object_values_def TIME_SCALES_def)

theorem convert_same_scale_witness:
  "convert (\<lambda>x. 0) (Date (Finite 1464739200000)) TIME_SCALES_TDB TIME_SCALES_TDB
     = Inr (Date (Finite 1464739200000))"
  using convert_same_scale [of "\<lambda>x. 0" "Date (Finite 1464739200000)" TIME_SCALES_TDB]
  by simp

text \<open>
  Claim C9 at a failing input. \<open>convert(t, UT1, UTC)\<close> returns \<open>t\<close> itself: the
  conversion to UTC has a branch for TAI and for TT only. For \<open>t = new Date(0)\<close> the
  result is \<open>new Date(0)\<close>, whereas \<open>t\<close> minus DUT1 is \<open>new Date(123)\<close>
  (\<open>123.39999999999999\<close> truncated), the instant that \<open>utcToUT1\<close> maps to \<open>t\<close>.
\<close>

theorem convert_UT1_to_UTC_unchanged:
  "convert sin64 t TIME_SCALES_UT1 TIME_SCALES_UTC = Inr t
   \<and> newDate (num_sub (Finite 0) (num_mul (dut1 EOP_DATA) (Finite 1000))) = Date (Finite 123)
   \<and> utcToUT1 (Date (Finite 123)) = Date (Finite 0)"
proof (intro conjI)
  show "convert sin64 t TIME_SCALES_UT1 TIME_SCALES_UTC = Inr t"
    by (simp add: convert_def Let_def scale_defs)
  show "newDate (num_sub (Finite 0) (num_mul (dut1 EOP_DATA) (Finite 1000))) = Date (Finite 123)"
    by code_simp
  show "utcToUT1 (Date (Finite 123)) = Date (Finite 0)"
    by code_simp
qed

theorem convert_UT1_to_UTC_unchanged_witness:
  "convert (\<lambda>x. 0) (Date (Finite 0)) TIME_SCALES_UT1 TIME_SCALES_UTC
     \<noteq> Inr (newDate (num_sub (Finite 0) (num_mul (dut1 EOP_DATA) (Finite 1000))))"
  using convert_UT1_to_UTC_unchanged [of "\<lambda>x. 0" "Date (Finite 0)"] by simp

text \<open>
  Claim C10. For every timestamp \<open>t\<close> and every source scale other than GPS,
  \<open>convert(t, fromScale, GPS)\<close> throws \<open>Unsupported time scale: GPS\<close>, although GPS is
  a member of \<open>TIME_SCALES\<close>; \<open>convert(t, GPS, GPS)\<close> returns \<open>t\<close>.
\<close>

theorem convert_to_GPS_unsupported:
  "(fromScale \<noteq> TIME_SCALES_GPS \<longrightarrow>
      convert sin64 t fromScale TIME_SCALES_GPS = Inl (UnsupportedTimeScale TIME_SCALES_GPS))
   \<and> convert sin64 t TIME_SCALES_GPS TIME_SCALES_GPS = Inr t
   \<and> includes_js (Object_values TIME_SCALES) (Str TIME_SCALES_GPS)"
  by (simp add: convert_def Let_def scale_defs includes_js_def Object_values_def
      TIME_SCALES_def)

theorem convert_to_GPS_unsupported_witness:
  "TIME_SCALES_UTC \<noteq> TIME_SCALES_GPS
   \<and> convert (\<lambda>x. 0) (Date (Finite 0)) TIME_SCALES_UTC TIME_SCALES_GPS
       = Inl (UnsupportedTimeScale ''GPS'')"
  using convert_to_GPS_unsupported [of TIME_SCALES_UTC "\<lambda>x. 0" "Date (Finite 0)"]
  by (simp add: scale_defs)

section \<open>Claims on TruthContract and ContractedVerifier\<close>

lemmas table_defs = Object_values_def FRAMES_def TIME_SCALES_def HEIGHT_DATUMS_def ORIGINS_def
  FRAMES_ICRF_BARYCENTRIC_def FRAMES_HELIOCENTRIC_ECLIPTIC_def FRAMES_ECI_def FRAMES_ECEF_def
  FRAMES_TOPOCENTRIC_def FRAMES_MOON_CENTERED_def ORIGINS_GEOCENTRIC_def

text \<open>
  Claim C6, amended. The constructor of \<open>TruthContract\<close> throws exactly when the frame
  is not a value of \<open>FRAMES\<close>, or the time scale is not a value of \<open>TIME_SCALES\<close>, or
  the datum is a non-empty string that is not a value of \<open>HEIGHT_DATUMS\<close>; the error is
  that of the first check that fails. Otherwise construction succeeds and the contract
  holds the given frame and time scale, the given tolerance or \<open>{}\<close>, and as datum
  the given non-empty string, or \<open>null\<close> when the datum is missing, \<open>null\<close> or the
  empty string.
\<close>

theorem TruthContract_new_throws_iff:
  "(isl (TruthContract_new config) \<longleftrightarrow>
      \<not> includes_js (Object_values FRAMES) (frame config)
      \<or> \<not> includes_js (Object_values TIME_SCALES) (timeScale config)
      \<or> (\<exists>h. heightDatum config = Str h \<and> h \<noteq> []
               \<and> \<not> includes_js (Object_values HEIGHT_DATUMS) (Str h)))
   \<and> (\<forall>c. TruthContract_new config = Inr c \<longrightarrow>
          c = \<lparr>this_frame = frame config,
               this_timeScale = timeScale config,
               this_heightDatum =
                 (case heightDatum config of
                    Str h \<Rightarrow> if h = [] then Null else Str h
                  | _ \<Rightarrow> Null),
               this_tolerance = (case tolerance config of None \<Rightarrow> [] | Some t \<Rightarrow> t)\<rparr>)
   \<and> (\<forall>e. TruthContract_new config = Inl e \<longrightarrow>
          e = (if \<not> includes_js (Object_values FRAMES) (frame config)
               then InvalidFrame (frame config)
               else if \<not> includes_js (Object_values TIME_SCALES) (timeScale config)
               then InvalidTimeScale (timeScale config)
               else InvalidHeightDatum (heightDatum config)))"
  by (auto simp: TruthContract_new_def Let_def or_null_def truthy_def includes_js_def
      split: jsval.splits if_splits)

theorem TruthContract_new_throws_iff_witness:
  "isl (TruthContract_new \<lparr>frame = Str ''ECI'', timeScale = Str ''UTC'',
          heightDatum = Str ''NAVD88'', origin = Undefined, tolerance = None\<rparr>)
   \<and> isl (TruthContract_new \<lparr>frame = Str ''EARTH'', timeScale = Str ''UTC'',
          heightDatum = Undefined, origin = Undefined, tolerance = None\<rparr>)
   \<and> TruthContract_new \<lparr>frame = Str ''ECI'', timeScale = Str ''UTC'',
          heightDatum = Str ''MSL'', origin = Undefined, tolerance = None\<rparr>
       = Inr \<lparr>this_frame = Str ''ECI'', this_timeScale = Str ''UTC'',
              this_heightDatum = Str ''MSL'', this_tolerance = []\<rparr>
   \<and> TruthContract_new \<lparr>frame = Str ''ECI'', timeScale = Str ''UTC'',
          heightDatum = Null, origin = Undefined, tolerance = None\<rparr>
       = Inr \<lparr>this_frame = Str ''ECI'', this_timeScale = Str ''UTC'',
              this_heightDatum = Null, this_tolerance = []\<rparr>"
proof -
  let ?bad_datum = "\<lparr>frame = Str ''ECI'', timeScale = Str ''UTC'',
      heightDatum = Str ''NAVD88'', origin = Undefined, tolerance = None\<rparr>"
  let ?bad_frame = "\<lparr>frame = Str ''EARTH'', timeScale = Str ''UTC'',
      heightDatum = Undefined, origin = Undefined, tolerance = None\<rparr>"
  let ?msl = "\<lparr>frame = Str ''ECI'', timeScale = Str ''UTC'',
      heightDatum = Str ''MSL'', origin = Undefined, tolerance = None\<rparr>"
  let ?null = "\<lparr>frame = Str ''ECI'', timeScale = Str ''UTC'',
      heightDatum = Null, origin = Undefined, tolerance = None\<rparr>"
  have a: "isl (TruthContract_new ?bad_datum)"
    using TruthContract_new_throws_iff [of ?bad_datum]
    by (simp add: includes_js_def table_defs scale_defs)
  have b: "isl (TruthContract_new ?bad_frame)"
    using TruthContract_new_throws_iff [of ?bad_frame]
    by (simp add: includes_js_def table_defs scale_defs)
  have "\<not> isl (TruthContract_new ?msl)"
    using TruthContract_new_throws_iff [of ?msl]
    by (simp add: includes_js_def table_defs scale_defs)
  then obtain c where c: "TruthContract_new ?msl = Inr c"
    by (cases "TruthContract_new ?msl") auto
  then have c': "c = \<lparr>this_frame = Str ''ECI'', this_timeScale = Str ''UTC'',
      this_heightDatum = Str ''MSL'', this_tolerance = []\<rparr>"
    using TruthContract_new_throws_iff [of ?msl] by simp
  have "\<not> isl (TruthContract_new ?null)"
    using TruthContract_new_throws_iff [of ?null]
    by (simp add: includes_js_def table_defs scale_defs)
  then obtain n where n: "TruthContract_new ?null = Inr n"
    by (cases "TruthContract_new ?null") auto
  then have n': "n = \<lparr>this_frame = Str ''ECI'', this_timeScale = Str ''UTC'',
      this_heightDatum = Null, this_tolerance = []\<rparr>"
    using TruthContract_new_throws_iff [of ?null] by simp
  from a b c c' n n' show ?thesis by simp
qed

text \<open>
  Claim C6 as written fails for the datum \<open>''\<close>: the empty string is given and is
  not a value of \<open>HEIGHT_DATUMS\<close>, yet construction succeeds, with the datum \<open>null\<close>.
\<close>

theorem TruthContract_new_empty_datum_counterexample:
  "TruthContract_new \<lparr>frame = Str ''ECI'', timeScale = Str ''UTC'',
       heightDatum = Str [], origin = Undefined, tolerance = None\<rparr>
     = Inr \<lparr>this_frame = Str ''ECI'', this_timeScale = Str ''UTC'',
            this_heightDatum = Null, this_tolerance = []\<rparr>
   \<and> \<not> includes_js (Object_values HEIGHT_DATUMS) (Str [])"
  by (simp add: TruthContract_new_def Let_def or_null_def truthy_def includes_js_def
      table_defs scale_defs)

text \<open>
  Claim C7, amended. When a contract is registered for the test id, \<open>verify\<close> does not
  throw: it logs the verification with the contract's own \<open>toString\<close>, emits the frame
  warning when exactly one of the two frames is in the list \<open>rotating\<close> (ECEF,
  TOPOCENTRIC), the only frame mismatch the code detects, emits the time-scale
  warning when the two time scales differ under \<open>!==\<close>, and returns the result of
  \<open>compareWithTolerance\<close>, which is \<open>true\<close>. It throws exactly when no contract is
  registered. Every pair of frames that is warned about breaks the frame invariant of
  the specification (both rotating or both inertial).
\<close>

theorem verify_warns_and_returns:
  "(\<forall>contract. contracts this testId = Some contract \<longrightarrow>
      verify this testId simulated reference =
        Inr (True,
             [Log_Verifying testId (Contract_toString contract)]
             @ (if includes_js [FRAMES_ECEF, FRAMES_TOPOCENTRIC] (value_frame simulated)
                   \<noteq> includes_js [FRAMES_ECEF, FRAMES_TOPOCENTRIC] (value_frame reference)
                then [Warn_FrameMismatch testId (value_frame simulated) (value_frame reference)]
                else [])
             @ (if value_timeScale simulated \<noteq> value_timeScale reference
                then [Warn_TimeScaleMismatch (value_timeScale simulated)
                        (value_timeScale reference)]
                else [])))
   \<and> (isl (verify this testId simulated reference) \<longleftrightarrow> contracts this testId = None)
   \<and> (contracts this testId = None \<longrightarrow>
        verify this testId simulated reference = Inl (NoContractRegistered testId))
   \<and> (includes_js [FRAMES_ECEF, FRAMES_TOPOCENTRIC] (value_frame simulated)
          \<noteq> includes_js [FRAMES_ECEF, FRAMES_TOPOCENTRIC] (value_frame reference)
        \<longrightarrow> \<not> spec_frames_compatible (value_frame simulated) (value_frame reference))"
proof (intro conjI allI impI)
  fix contract
  assume "contracts this testId = Some contract"
  then show "verify this testId simulated reference =
      Inr (True,
           [Log_Verifying testId (Contract_toString contract)]
           @ (if includes_js [FRAMES_ECEF, FRAMES_TOPOCENTRIC] (value_frame simulated)
                 \<noteq> includes_js [FRAMES_ECEF, FRAMES_TOPOCENTRIC] (value_frame reference)
              then [Warn_FrameMismatch testId (value_frame simulated) (value_frame reference)]
              else [])
           @ (if value_timeScale simulated \<noteq> value_timeScale reference
              then [Warn_TimeScaleMismatch (value_timeScale simulated)
                      (value_timeScale reference)]
              else []))"
    by (simp add: verify_def Let_def validateFrameCompatibility_def compareWithTolerance_def)
next
  show "isl (verify this testId simulated reference) \<longleftrightarrow> contracts this testId = None"
    by (simp add: verify_def Let_def split: option.splits)
next
  assume "contracts this testId = None"
  then show "verify this testId simulated reference = Inl (NoContractRegistered testId)"
    by (simp add: verify_def)
next
  assume "includes_js [FRAMES_ECEF, FRAMES_TOPOCENTRIC] (value_frame simulated)
      \<noteq> includes_js [FRAMES_ECEF, FRAMES_TOPOCENTRIC] (value_frame reference)"
  then show "\<not> spec_frames_compatible (value_frame simulated) (value_frame reference)"
    by (auto simp: spec_frames_compatible_def Let_def includes_js_def table_defs
        split: jsval.splits)
qed

theorem verify_warns_and_returns_witness:
  "verify (registerContract ContractedVerifier_new ''eclipse''
       (OfTruthContract \<lparr>this_frame = Str ''ECI'', this_timeScale = Str ''TT'',
          this_heightDatum = Null, this_tolerance = []\<rparr>)) ''eclipse''
       \<lparr>value_frame = Str ''ECEF'', value_timeScale = Undefined\<rparr>
       \<lparr>value_frame = Str ''ECI'', value_timeScale = Null\<rparr>
     = Inr (True,
         [Log_Verifying ''eclipse'' ''Contract(frame=ECI, time=TT, datum=null)'',
          Warn_FrameMismatch ''eclipse'' (Str ''ECEF'') (Str ''ECI''),
          Warn_TimeScaleMismatch Undefined Null])
   \<and> verify (registerContract ContractedVerifier_new ''sky''
       (OfCelestialContract \<lparr>this_frame = Str ''ECI'', this_timeScale = Str ''TT'',
          this_heightDatum = Null, this_tolerance = [],
          this_origin = Str ''GEOCENTRIC''\<rparr>)) ''sky''
       \<lparr>value_frame = Str ''ECI'', value_timeScale = Str ''TT''\<rparr>
       \<lparr>value_frame = Str ''ECI'', value_timeScale = Str ''TT''\<rparr>
     = Inr (True,
         [Log_Verifying ''sky''
            ''Contract(frame=ECI, time=TT, origin=GEOCENTRIC, datum=null)''])
   \<and> \<not> spec_frames_compatible (Str ''ECEF'') (Str ''ECI'')
   \<and> verify ContractedVerifier_new ''eclipse''
       \<lparr>value_frame = Str ''ECEF'', value_timeScale = Str ''UTC''\<rparr>
       \<lparr>value_frame = Str ''ECI'', value_timeScale = Str ''TT''\<rparr>
     = Inl (NoContractRegistered ''eclipse'')"
  using verify_warns_and_returns [of
      "registerContract ContractedVerifier_new ''eclipse''
         (OfTruthContract \<lparr>this_frame = Str ''ECI'', this_timeScale = Str ''TT'',
            this_heightDatum = Null, this_tolerance = []\<rparr>)" "''eclipse''"
      "\<lparr>value_frame = Str ''ECEF'', value_timeScale = Undefined\<rparr>"
      "\<lparr>value_frame = Str ''ECI'', value_timeScale = Null\<rparr>"]
    verify_warns_and_returns [of
      "registerContract ContractedVerifier_new ''sky''
         (OfCelestialContract \<lparr>this_frame = Str ''ECI'', this_timeScale = Str ''TT'',
            this_heightDatum = Null, this_tolerance = [],
            this_origin = Str ''GEOCENTRIC''\<rparr>)" "''sky''"
      "\<lparr>value_frame = Str ''ECI'', value_timeScale = Str ''TT''\<rparr>"
      "\<lparr>value_frame = Str ''ECI'', value_timeScale = Str ''TT''\<rparr>"]
    verify_warns_and_returns [of ContractedVerifier_new "''eclipse''"
      "\<lparr>value_frame = Str ''ECEF'', value_timeScale = Str ''UTC''\<rparr>"
      "\<lparr>value_frame = Str ''ECI'', value_timeScale = Str ''TT''\<rparr>"]
  by (simp add: registerContract_def ContractedVerifier_new_def Contract_toString_def
      toString_def CelestialContract_toString_def template_def includes_js_def table_defs)

text \<open>
  Claim C7 as written fails for a frame mismatch that the code does not detect: ECI is
  inertial and MOON_CENTERED is not, so the two frames are neither both rotating nor
  both inertial, yet neither is in the list \<open>rotating\<close> and \<open>verify\<close> emits no
  warning.
\<close>

theorem verify_unwarned_mismatch_counterexample:
  "\<not> spec_frames_compatible (Str FRAMES_ECI) (Str FRAMES_MOON_CENTERED)
   \<and> verify (registerContract ContractedVerifier_new ''moon''
       (OfTruthContract \<lparr>this_frame = Str ''ECI'', this_timeScale = Str ''UTC'',
          this_heightDatum = Null, this_tolerance = []\<rparr>)) ''moon''
       \<lparr>value_frame = Str FRAMES_ECI, value_timeScale = Str ''UTC''\<rparr>
       \<lparr>value_frame = Str FRAMES_MOON_CENTERED, value_timeScale = Str ''UTC''\<rparr>
     = Inr (True, [Log_Verifying ''moon'' ''Contract(frame=ECI, time=UTC, datum=null)''])"
  by (simp add: verify_def Let_def validateFrameCompatibility_def compareWithTolerance_def
      spec_frames_compatible_def registerContract_def ContractedVerifier_new_def
      Contract_toString_def Contract_tolerance_def toString_def template_def
      includes_js_def table_defs)

section \<open>Claim on IAUTransform.ecefToGCRF\<close>




text \<open>
  The repository's own part of the chain runs on the binary64 model: at 2016-06-01 the
  Earth rotation angle and the Julian date of the TT instant are these values.
\<close>

lemma earthRotationAngle_example:
  "earthRotationAngle (dateToJulianDate (utcToUT1 (newDateISO 2016 6 1)))
     = Finite (1226685469089385 / 281474976710656)"
  by code_simp

lemma dateToJulianDate_TT_example:
  "dateToJulianDate (utcToTT (newDateISO 2016 6 1)) = Finite (5277528039742467 / 2147483648)"
  by code_simp

end
